theory Spec2Isabelle
  imports Main "HOL-Library.Word"
begin

section \<open>The mock header \<open>Tools/mql5_linting/mql5_mock.h\<close>\<close>

text \<open>
  The header consists of two typedefs, seven object-like macros, seven inline stub
  functions and an include guard. The stubs are embedded as state-passing HOL functions
  (part one); the directives and declarations of the header are embedded as a list of
  lines that a small model of the preprocessor and of the declaration table of a
  translation unit reads (part two).
\<close>

subsection \<open>Value types of the stubs\<close>

text \<open>
  A C++ \<open>int\<close> is a 32-bit two's complement value (read with \<open>sint\<close>). A \<open>double\<close> is
  carried as the three fields of its IEEE-754 binary64 encoding; the header does no
  floating-point arithmetic, it only passes doubles around and returns the literal
  \<open>0.0\<close>, so the literals' encodings are all that is needed.
\<close>

type_synonym cint = "32 word"

datatype double = Double (sign_bit: bool) (exponent: "11 word") (fraction: "52 word")

definition double_0_0 :: double where
  \<comment> \<open>the literal \<open>0.0\<close>: positive zero, all bits clear\<close>
  "double_0_0 = Double False 0 0"

definition double_1_0 :: double where
  \<comment> \<open>the literal \<open>1.0\<close>: biased exponent 1023, fraction 0\<close>
  "double_1_0 = Double False 1023 0"

subsection \<open>Constants (lines 23 to 26)\<close>

text \<open>
  \<^verbatim>\<open>
  #define PERIOD_CURRENT 0
  #define PERIOD_M1 1
  #define OP_BUY 0
  #define OP_SELL 1
  \<close>
  Each name stands for an integer literal of type \<open>int\<close>.
\<close>

definition PERIOD_CURRENT :: cint where
  "PERIOD_CURRENT = 0"

definition PERIOD_M1 :: cint where
  "PERIOD_M1 = 1"

definition OP_BUY :: cint where
  "OP_BUY = 0"

definition OP_SELL :: cint where
  "OP_SELL = 1"

subsection \<open>Stub functions (lines 29 to 38)\<close>

text \<open>
  Every stub is a function from the program state before the call to the returned value
  and the program state after the call. The header declares no variable of its own, so
  the state is whatever the including program has: a type parameter \<open>'s\<close>. A body
  \<open>{ return v; }\<close> yields \<open>v\<close> and the state it was given; an empty body of a \<open>void\<close>
  function yields \<open>()\<close> and the state it was given.
\<close>

definition SymbolInfoDouble :: "string \<Rightarrow> cint \<Rightarrow> 's \<Rightarrow> double \<times> 's" where
  "SymbolInfoDouble symbol prop_id s = (double_0_0, s)"

definition OrderSend ::
  "string \<Rightarrow> cint \<Rightarrow> double \<Rightarrow> double \<Rightarrow> cint \<Rightarrow> double \<Rightarrow> double \<Rightarrow> 's \<Rightarrow> bool \<times> 's" where
  "OrderSend symbol cmd volume price slippage stoploss takeprofit s = (True, s)"

definition Print :: "string \<Rightarrow> 's \<Rightarrow> unit \<times> 's" where
  "Print msg s = ((), s)"

definition GetLastError :: "'s \<Rightarrow> cint \<times> 's" where
  "GetLastError s = (0, s)"

definition OnInit :: "'s \<Rightarrow> cint \<times> 's" where
  "OnInit s = (0, s)"

definition OnDeinit :: "cint \<Rightarrow> 's \<Rightarrow> unit \<times> 's" where
  "OnDeinit reason s = ((), s)"

definition OnTick :: "'s \<Rightarrow> unit \<times> 's" where
  "OnTick s = ((), s)"

subsection \<open>Calls and call histories\<close>

text \<open>
  A call names a stub and carries its arguments; the value a call returns is tagged with
  its C++ type. \<open>exec\<close> performs one call, \<open>run\<close> a sequence of calls from left to right,
  handing each call the state its predecessor left.
\<close>

datatype stub =
    Stub_SymbolInfoDouble
  | Stub_OrderSend
  | Stub_Print
  | Stub_GetLastError
  | Stub_OnInit
  | Stub_OnDeinit
  | Stub_OnTick

datatype call =
    Call_SymbolInfoDouble string cint
  | Call_OrderSend string cint double double cint double double
  | Call_Print string
  | Call_GetLastError
  | Call_OnInit
  | Call_OnDeinit cint
  | Call_OnTick

datatype retval = Ret_double double | Ret_bool bool | Ret_int cint | Ret_void

fun stub_of :: "call \<Rightarrow> stub" where
  "stub_of (Call_SymbolInfoDouble symbol prop_id) = Stub_SymbolInfoDouble"
| "stub_of (Call_OrderSend symbol cmd volume price slippage stoploss takeprofit) = Stub_OrderSend"
| "stub_of (Call_Print msg) = Stub_Print"
| "stub_of Call_GetLastError = Stub_GetLastError"
| "stub_of Call_OnInit = Stub_OnInit"
| "stub_of (Call_OnDeinit reason) = Stub_OnDeinit"
| "stub_of Call_OnTick = Stub_OnTick"

fun exec :: "call \<Rightarrow> 's \<Rightarrow> retval \<times> 's" where
  "exec (Call_SymbolInfoDouble symbol prop_id) s =
     (case SymbolInfoDouble symbol prop_id s of (r, s') \<Rightarrow> (Ret_double r, s'))"
| "exec (Call_OrderSend symbol cmd volume price slippage stoploss takeprofit) s =
     (case OrderSend symbol cmd volume price slippage stoploss takeprofit s of
        (r, s') \<Rightarrow> (Ret_bool r, s'))"
| "exec (Call_Print msg) s = (case Print msg s of (r, s') \<Rightarrow> (Ret_void, s'))"
| "exec Call_GetLastError s = (case GetLastError s of (r, s') \<Rightarrow> (Ret_int r, s'))"
| "exec Call_OnInit s = (case OnInit s of (r, s') \<Rightarrow> (Ret_int r, s'))"
| "exec (Call_OnDeinit reason) s = (case OnDeinit reason s of (r, s') \<Rightarrow> (Ret_void, s'))"
| "exec Call_OnTick s = (case OnTick s of (r, s') \<Rightarrow> (Ret_void, s'))"

fun run :: "call list \<Rightarrow> 's \<Rightarrow> retval list \<times> 's" where
  "run [] s = ([], s)"
| "run (c # cs) s =
     (case exec c s of (r, s') \<Rightarrow> (case run cs s' of (rs, s'') \<Rightarrow> (r # rs, s'')))"

section \<open>The header as a list of lines\<close>

subsection \<open>Lines, types and the declarations of a translation unit\<close>

text \<open>
  A preprocessing token is its spelling. The C++ types are the ones the header names:
  the two \<open><cstdint>\<close> types of the typedefs and the return and parameter types of the
  stubs (\<open>const int\<close> as a parameter has the signature of \<open>int\<close>).
\<close>

type_synonym token = string

datatype cpp_type = Int64_t | Uint32_t | Int_t | Double_t | Bool_t | Void_t | Const_string_ref

datatype signedness = Signed | Unsigned

text \<open>
  What \<open><cstdint>\<close> fixes for its exact-width types: \<open>intN_t\<close> is a signed two's
  complement integer of exactly N bits, \<open>uintN_t\<close> an unsigned one. The other types have
  no width of their own.
\<close>

fun fixed_width_integer :: "cpp_type \<Rightarrow> (signedness \<times> nat) option" where
  "fixed_width_integer Int64_t = Some (Signed, 64)"
| "fixed_width_integer Uint32_t = Some (Unsigned, 32)"
| "fixed_width_integer ty = None"

text \<open>
  The lines of the header: the three directives it uses (\<open>#ifndef\<close>, \<open>#define\<close> of an
  object-like macro with its replacement list, \<open>#endif\<close>), \<open>#include\<close> of a system
  header, a typedef, and the definition of an inline function (return type, name,
  parameter types).
\<close>

datatype line =
    IfNDef string
  | Define string "token list"
  | EndIf
  | Include_system string
  | Typedef cpp_type string
  | Inline_function cpp_type string "cpp_type list"

text \<open>
  What a translation unit has seen so far: its macros with their replacement lists, the
  system headers it included, its typedefs, and its function definitions (keyed by name
  and parameter types, as overloading has it).
\<close>

record tu =
  tu_macros :: "(string \<times> token list) list"
  tu_includes :: "string list"
  tu_typedefs :: "(string \<times> cpp_type) list"
  tu_functions :: "((string \<times> cpp_type list) \<times> cpp_type) list"

datatype error =
    Macro_redefined string
  | Typedef_redefined string
  | Function_redefined string
  | Endif_without_if
  | Unterminated_conditional

definition empty_tu :: tu where
  "empty_tu = \<lparr>tu_macros = [], tu_includes = [], tu_typedefs = [], tu_functions = []\<rparr>"

text \<open>
  One line outside a skipped group. Defining a macro again is an error unless the
  replacement list is the same; so is a typedef of a name to another type; a second
  definition of a function with the same name and parameter types is always an error
  (the one-definition rule within a translation unit). System headers carry guards of
  their own: including one again changes nothing. Of a system header only its name is
  recorded; what it declares and the macros it defines are not.
\<close>

fun process_line :: "line \<Rightarrow> tu \<Rightarrow> error + tu" where
  "process_line (Define m body) t =
     (case map_of (tu_macros t) m of
        None \<Rightarrow> Inr (t\<lparr>tu_macros := tu_macros t @ [(m, body)]\<rparr>)
      | Some body' \<Rightarrow> if body' = body then Inr t else Inl (Macro_redefined m))"
| "process_line (Include_system h) t =
     Inr (if h \<in> set (tu_includes t) then t else t\<lparr>tu_includes := tu_includes t @ [h]\<rparr>)"
| "process_line (Typedef ty n) t =
     (case map_of (tu_typedefs t) n of
        None \<Rightarrow> Inr (t\<lparr>tu_typedefs := tu_typedefs t @ [(n, ty)]\<rparr>)
      | Some ty' \<Rightarrow> if ty' = ty then Inr t else Inl (Typedef_redefined n))"
| "process_line (Inline_function r n ps) t =
     (case map_of (tu_functions t) (n, ps) of
        None \<Rightarrow> Inr (t\<lparr>tu_functions := tu_functions t @ [((n, ps), r)]\<rparr>)
      | Some r' \<Rightarrow> Inl (Function_redefined n))"
| "process_line (IfNDef m) t = Inr t"
| "process_line EndIf t = Inr t"

text \<open>
  Conditional inclusion. The stack holds one flag per open \<open>#ifndef\<close>: whether the lines
  of its group are read. A group is read when the enclosing group is read and the macro
  is not defined; lines of a skipped group are dropped. A file must close every
  conditional it opens.
\<close>

fun active :: "bool list \<Rightarrow> bool" where
  "active [] = True"
| "active (b # stk) = b"

fun preprocess :: "bool list \<Rightarrow> line list \<Rightarrow> tu \<Rightarrow> error + tu" where
  "preprocess stk [] t = (if stk = [] then Inr t else Inl Unterminated_conditional)"
| "preprocess stk (IfNDef m # ls) t =
     preprocess ((active stk \<and> map_of (tu_macros t) m = None) # stk) ls t"
| "preprocess stk (EndIf # ls) t =
     (case stk of [] \<Rightarrow> Inl Endif_without_if | b # stk' \<Rightarrow> preprocess stk' ls t)"
| "preprocess stk (l # ls) t =
     (if active stk
      then (case process_line l t of Inl e \<Rightarrow> Inl e | Inr t' \<Rightarrow> preprocess stk ls t')
      else preprocess stk ls t)"

subsection \<open>The header (lines 7 to 40)\<close>

definition mql5_mock_h :: "line list" where
  "mql5_mock_h =
    [IfNDef ''MQL5_MOCK_H'',
     Define ''MQL5_MOCK_H'' [],
     Include_system ''cstdint'',
     Include_system ''string'',
     Typedef Int64_t ''datetime'',
     Typedef Uint32_t ''color'',
     Define ''input'' [],
     Define ''sinput'' [''static''],
     Define ''extern'' [],
     Define ''PERIOD_CURRENT'' [''0''],
     Define ''PERIOD_M1'' [''1''],
     Define ''OP_BUY'' [''0''],
     Define ''OP_SELL'' [''1''],
     Inline_function Double_t ''SymbolInfoDouble'' [Const_string_ref, Int_t],
     Inline_function Bool_t ''OrderSend''
       [Const_string_ref, Int_t, Double_t, Double_t, Int_t, Double_t, Double_t],
     Inline_function Void_t ''Print'' [Const_string_ref],
     Inline_function Int_t ''GetLastError'' [],
     Inline_function Int_t ''OnInit'' [],
     Inline_function Void_t ''OnDeinit'' [Int_t],
     Inline_function Void_t ''OnTick'' [],
     EndIf]"

text \<open>
  \<open>#include "mql5_mock.h"\<close> at the top level of a translation unit, and the same
  directive written \<open>n\<close> times in a row.
\<close>

definition include_header :: "tu \<Rightarrow> error + tu" where
  "include_header t = preprocess [] mql5_mock_h t"

fun include_times :: "nat \<Rightarrow> tu \<Rightarrow> error + tu" where
  "include_times 0 t = Inr t"
| "include_times (Suc n) t =
     (case include_header t of Inl e \<Rightarrow> Inl e | Inr t' \<Rightarrow> include_times n t')"

text \<open>
  The macro definitions written in the header itself: its \<open>#define\<close> lines, in order.
  These are not all the macros of a translation unit that has read the header: the
  system headers it includes, the program and the command line define macros too, and
  none of those is in this list.
\<close>

fun defines_of :: "line list \<Rightarrow> (string \<times> token list) list" where
  "defines_of [] = []"
| "defines_of (Define m body # ls) = (m, body) # defines_of ls"
| "defines_of (l # ls) = defines_of ls"

definition header_defines :: "(string \<times> token list) list" where
  "header_defines = defines_of mql5_mock_h"



subsection \<open>Macro replacement\<close>

text \<open>
  Replacement of object-like macros in a run of tokens that holds no directive: a token
  that names a macro is replaced by the macro's replacement list, which is scanned again
  with that name no longer replaced (\<open>hs\<close> holds the names being replaced); every other
  token stays.
\<close>

function expand :: "(string \<times> token list) list \<Rightarrow> string list \<Rightarrow> token list \<Rightarrow> token list" where
  "expand tbl hs [] = []"
| "expand tbl hs (t # ts) =
     (case (if t \<in> set hs then None else map_of tbl t) of
        None \<Rightarrow> t # expand tbl hs ts
      | Some body \<Rightarrow> expand tbl (t # hs) body @ expand tbl hs ts)"
  by pat_completeness auto
termination
proof (relation "measures [\<lambda>(tbl, hs, ts). card (fst ` set tbl - set hs), \<lambda>(tbl, hs, ts). length ts]",
    goal_cases)
  case 1
  show ?case by simp
next
  case (2 tbl hs t ts)
  show ?case by simp
next
  case (3 tbl hs t ts body)
  then have "t \<notin> set hs" and "t \<in> fst ` set tbl"
    by (auto split: if_splits dest: map_of_SomeD simp: rev_image_eqI)
  then have "fst ` set tbl - set (t # hs) \<subset> fst ` set tbl - set hs"
    by auto
  then have "card (fst ` set tbl - set (t # hs)) < card (fst ` set tbl - set hs)"
    by (intro psubset_card_mono) auto
  then show ?case by simp
next
  case (4 tbl hs t ts body)
  show ?case by simp
qed



section \<open>Auxiliary lemmas\<close>

subsection \<open>Stubs\<close>

lemma exec_state: "snd (exec c s) = s"
  by (cases c)
    (simp_all add: SymbolInfoDouble_def OrderSend_def Print_def GetLastError_def
      OnInit_def OnDeinit_def OnTick_def)

lemma run_state: "snd (run cs s) = s"
proof (induction cs arbitrary: s)
  case Nil
  show ?case by simp
next
  case (Cons c cs)
  obtain r s' where e: "exec c s = (r, s')"
    by (cases "exec c s")
  from exec_state [of c s] e have "s' = s"
    by simp
  with Cons.IH [of s] e show ?case
    by (cases "run cs s") simp
qed

lemma exec_result:
  "fst (exec c s) =
     (case stub_of c of
        Stub_SymbolInfoDouble \<Rightarrow> Ret_double double_0_0
      | Stub_OrderSend \<Rightarrow> Ret_bool True
      | Stub_Print \<Rightarrow> Ret_void
      | Stub_GetLastError \<Rightarrow> Ret_int 0
      | Stub_OnInit \<Rightarrow> Ret_int 0
      | Stub_OnDeinit \<Rightarrow> Ret_void
      | Stub_OnTick \<Rightarrow> Ret_void)"
  by (cases c)
    (simp_all add: SymbolInfoDouble_def OrderSend_def Print_def GetLastError_def
      OnInit_def OnDeinit_def OnTick_def)

subsection \<open>Reading the header\<close>

text \<open>The translation unit that includes the header first thing.\<close>

lemma include_header_empty:
  "include_header empty_tu =
     Inr \<lparr>tu_macros =
        [(''MQL5_MOCK_H'', []), (''input'', []), (''sinput'', [''static'']),
         (''extern'', []), (''PERIOD_CURRENT'', [''0'']), (''PERIOD_M1'', [''1'']),
         (''OP_BUY'', [''0'']), (''OP_SELL'', [''1''])],
        tu_includes = [''cstdint'', ''string''],
        tu_typedefs = [(''datetime'', Int64_t), (''color'', Uint32_t)],
        tu_functions =
          [((''SymbolInfoDouble'', [Const_string_ref, Int_t]), Double_t),
           ((''OrderSend'',
             [Const_string_ref, Int_t, Double_t, Double_t, Int_t, Double_t, Double_t]),
            Bool_t),
           ((''Print'', [Const_string_ref]), Void_t),
           ((''GetLastError'', []), Int_t),
           ((''OnInit'', []), Int_t),
           ((''OnDeinit'', [Int_t]), Void_t),
           ((''OnTick'', []), Void_t)]\<rparr>"
  by (simp add: include_header_def mql5_mock_h_def empty_tu_def)

text \<open>Once the guard macro is defined, the whole header is skipped.\<close>

lemma guarded_skip:
  assumes "map_of (tu_macros t) ''MQL5_MOCK_H'' = Some b"
  shows "include_header t = Inr t"
  using assms by (simp add: include_header_def mql5_mock_h_def)

text \<open>No line undefines a macro or changes its replacement list.\<close>

lemma process_line_keeps_macro:
  "process_line l t = Inr t' \<Longrightarrow> map_of (tu_macros t) m = Some b \<Longrightarrow>
   map_of (tu_macros t') m = Some b"
proof (cases l)
  case (Define m' body)
  assume "process_line l t = Inr t'" "map_of (tu_macros t) m = Some b"
  with Define show ?thesis
    by (auto split: option.splits if_splits simp: map_add_Some_iff)
qed (auto split: option.splits if_splits)

lemma preprocess_keeps_macro:
  "preprocess stk ls t = Inr t' \<Longrightarrow> map_of (tu_macros t) m = Some b \<Longrightarrow>
   map_of (tu_macros t') m = Some b"
proof (induction stk ls t rule: preprocess.induct)
  case (1 stk t)
  then show ?case by (simp split: if_splits)
next
  case (2 stk m' ls t)
  then show ?case by simp
next
  case (3 stk ls t)
  then show ?case by (cases stk) simp_all
qed (auto split: if_splits sum.splits dest: process_line_keeps_macro
    simp del: process_line.simps)

text \<open>An inclusion that succeeds leaves the guard macro defined.\<close>

lemma include_header_defines_guard:
  assumes "include_header t = Inr t'"
  shows "\<exists>b. map_of (tu_macros t') ''MQL5_MOCK_H'' = Some b"
proof (cases "map_of (tu_macros t) ''MQL5_MOCK_H''")
  case (Some b)
  with assms guarded_skip [OF Some] show ?thesis
    by simp
next
  case None
  let ?t1 = "t\<lparr>tu_macros := tu_macros t @ [(''MQL5_MOCK_H'', [])]\<rparr>"
  have g: "map_of (tu_macros ?t1) ''MQL5_MOCK_H'' = Some []"
    using None by (simp add: map_add_def)
  from assms None have "preprocess [True] (drop 2 mql5_mock_h) ?t1 = Inr t'"
    by (simp add: include_header_def mql5_mock_h_def)
  from preprocess_keeps_macro [OF this g] show ?thesis
    by blast
qed

lemma include_times_guarded:
  "map_of (tu_macros t) ''MQL5_MOCK_H'' = Some b \<Longrightarrow> include_times n t = Inr t"
  by (induction n) (simp_all add: guarded_skip)

text \<open>
  What the guard is for: the lines between \<open>#ifndef\<close> and \<open>#endif\<close>, read twice without
  it, define \<open>SymbolInfoDouble\<close> twice.
\<close>

lemma unguarded_twice:
  "preprocess [] (butlast (tl mql5_mock_h)) empty_tu = Inr t \<Longrightarrow>
   preprocess [] (butlast (tl mql5_mock_h)) t = Inl (Function_redefined ''SymbolInfoDouble'')"
  by (auto simp add: mql5_mock_h_def empty_tu_def)

subsection \<open>Macro replacement with the header's macros\<close>

lemma header_defines_eq:
  "header_defines =
     [(''MQL5_MOCK_H'', []), (''input'', []), (''sinput'', [''static'']),
      (''extern'', []), (''PERIOD_CURRENT'', [''0'']), (''PERIOD_M1'', [''1'']),
      (''OP_BUY'', [''0'']), (''OP_SELL'', [''1''])]"
  by (simp add: header_defines_def mql5_mock_h_def)




subsection \<open>Examples\<close>

text \<open>
  Two declarations of a script, replaced with the header's own definitions alone; a pair
  of macros that name each other, where the scan stops at the name being replaced; and a
  second inclusion of the header.
\<close>

lemma expand_example:
  "expand header_defines []
     [''input'', ''double'', ''Lots'', ''='', ''0.1'', '';'',
      ''sinput'', ''int'', ''Magic'', ''='', ''OP_SELL'', '';''] =
     [''double'', ''Lots'', ''='', ''0.1'', '';'',
      ''static'', ''int'', ''Magic'', ''='', ''1'', '';'']"
  by (simp add: header_defines_eq)

lemma expand_rescan_example:
  "expand [(''A'', [''B'', ''x'']), (''B'', [''A'', ''y''])] [] [''A'', ''c''] =
     [''A'', ''y'', ''x'', ''c'']"
  by simp

lemma include_twice_example:
  "include_times 2 empty_tu = include_header empty_tu"
  by (simp add: numeral_2_eq_2 include_header_empty guarded_skip)

section \<open>The claims\<close>

text \<open>
  C1. \<open>OrderSend\<close> returns \<open>true\<close> for every symbol, cmd, volume, price, slippage,
  stoploss and takeprofit, in every program state, and leaves the state as it was; in
  particular the call \<open>OrderSend("EURUSD", OP_BUY, 1.0, price, 3, sl, tp)\<close> returns
  \<open>true\<close>.
\<close>

theorem OrderSend_true:
  "OrderSend symbol cmd volume price slippage stoploss takeprofit s = (True, s)
   \<and> fst (OrderSend ''EURUSD'' OP_BUY double_1_0 price 3 sl tp s)"
  by (simp add: OrderSend_def)

text \<open>
  C2. \<open>SymbolInfoDouble\<close> returns exactly \<open>0.0\<close> (positive zero: sign, exponent and
  fraction all clear) for every symbol string and every prop_id, in every program state.
\<close>

theorem SymbolInfoDouble_zero:
  "fst (SymbolInfoDouble symbol prop_id s) = Double False 0 0"
  by (simp add: SymbolInfoDouble_def double_0_0_def)

text \<open>
  C3, as amended. The constants are distinct within each group of mutually exclusive
  members: the two timeframe periods \<open>PERIOD_CURRENT\<close> and \<open>PERIOD_M1\<close> differ, and the
  two order directions \<open>OP_BUY\<close> and \<open>OP_SELL\<close> differ.
\<close>

theorem constants_distinct_within_groups:
  "distinct [PERIOD_CURRENT, PERIOD_M1] \<and> distinct [OP_BUY, OP_SELL]"
  by (simp add: PERIOD_CURRENT_def PERIOD_M1_def OP_BUY_def OP_SELL_def)

text \<open>
  The four constants taken together are not pairwise distinct: \<open>PERIOD_CURRENT\<close> and
  \<open>OP_BUY\<close> are the same integer.
\<close>

theorem constants_not_pairwise_distinct:
  "\<not> distinct [PERIOD_CURRENT, PERIOD_M1, OP_BUY, OP_SELL]"
  by (simp add: PERIOD_CURRENT_def PERIOD_M1_def OP_BUY_def OP_SELL_def)

text \<open>
  C4. Constants of the two groups coincide: \<open>PERIOD_CURRENT\<close> and \<open>OP_BUY\<close> are both the
  integer 0, \<open>PERIOD_M1\<close> and \<open>OP_SELL\<close> are both the integer 1; the values differ only
  within each group.
\<close>

theorem constants_alias_across_groups:
  "sint PERIOD_CURRENT = 0 \<and> sint OP_BUY = 0 \<and> sint PERIOD_M1 = 1 \<and> sint OP_SELL = 1
   \<and> PERIOD_CURRENT = OP_BUY \<and> PERIOD_M1 = OP_SELL
   \<and> PERIOD_CURRENT \<noteq> PERIOD_M1 \<and> OP_BUY \<noteq> OP_SELL"
  by (simp add: PERIOD_CURRENT_def PERIOD_M1_def OP_BUY_def OP_SELL_def)

text \<open>
  C5. \<open>GetLastError\<close> returns 0 on every call: in every program state, and after every
  sequence of calls of the stubs with whatever arguments.
\<close>

theorem GetLastError_zero:
  "fst (GetLastError s) = 0 \<and> GetLastError (snd (run history s)) = (0, s)"
  by (simp add: GetLastError_def run_state)

text \<open>
  C6. Every stub is pure and deterministic: a call leaves the program state as it was,
  so does a sequence of calls, and two calls of the same stub return the same value
  whatever their arguments, the states they start in and the calls made before them.
\<close>

theorem stubs_pure_deterministic:
  "snd (exec c s) = s \<and> snd (run h s) = s
   \<and> (stub_of c = stub_of c' \<longrightarrow>
        fst (exec c (snd (run h s))) = fst (exec c' (snd (run h' s'))))"
  by (simp add: exec_state run_state exec_result)

theorem stubs_pure_deterministic_witness:
  "stub_of (Call_OrderSend ''EURUSD'' OP_BUY double_1_0 double_0_0 3 double_0_0 double_0_0) =
     stub_of (Call_OrderSend ''GBPUSD'' OP_SELL double_0_0 double_1_0 0 double_1_0 double_1_0)
   \<and> snd (exec (Call_OrderSend ''EURUSD'' OP_BUY double_1_0 double_0_0 3 double_0_0 double_0_0)
        (7::nat)) = 7
   \<and> snd (run [Call_Print ''tick'', Call_OnTick] (7::nat)) = 7
   \<and> fst (exec (Call_OrderSend ''EURUSD'' OP_BUY double_1_0 double_0_0 3 double_0_0 double_0_0)
        (snd (run [Call_Print ''tick'', Call_OnTick] (7::nat)))) =
      fst (exec (Call_OrderSend ''GBPUSD'' OP_SELL double_0_0 double_1_0 0 double_1_0 double_1_0)
        (snd (run [Call_GetLastError] (9::nat))))"
  using stubs_pure_deterministic
    [of "Call_OrderSend ''EURUSD'' OP_BUY double_1_0 double_0_0 3 double_0_0 double_0_0"
      "7::nat" "[Call_Print ''tick'', Call_OnTick]"
      "Call_OrderSend ''GBPUSD'' OP_SELL double_0_0 double_1_0 0 double_1_0 double_1_0"
      "[Call_GetLastError]" "9::nat"]
  by (simp add: OrderSend_def Print_def OnTick_def GetLastError_def)

text \<open>
  C7. The event-handler stubs behave trivially: \<open>OnInit\<close> returns 0 on every call, and
  \<open>Print\<close>, \<open>OnDeinit\<close> and \<open>OnTick\<close> return nothing and do nothing (the state after the
  call is the state before it) for every argument.
\<close>

theorem event_handlers_trivial:
  "OnInit s = (0, s) \<and> exec Call_OnInit s = (Ret_int 0, s)
   \<and> exec (Call_Print msg) s = (Ret_void, s)
   \<and> exec (Call_OnDeinit reason) s = (Ret_void, s)
   \<and> exec Call_OnTick s = (Ret_void, s)"
  by (simp add: OnInit_def Print_def OnDeinit_def OnTick_def)

text \<open>
  C8. Each type alias of the header resolves to a fixed-width integer type: \<open>datetime\<close>
  is \<open>int64_t\<close>, a signed integer of 64 bits, and \<open>color\<close> is \<open>uint32_t\<close>, an unsigned
  integer of 32 bits.
\<close>

theorem typedefs_fixed_width:
  "\<exists>t. include_header empty_tu = Inr t
     \<and> map_of (tu_typedefs t) ''datetime'' = Some Int64_t
     \<and> map_of (tu_typedefs t) ''color'' = Some Uint32_t
     \<and> fixed_width_integer Int64_t = Some (Signed, 64)
     \<and> fixed_width_integer Uint32_t = Some (Unsigned, 32)"
  by (simp add: include_header_empty)




text \<open>
  C10. Including the header is idempotent: in every translation unit, including it any
  positive number of times gives the declarations and definitions that including it once
  gives (an error of the first inclusion included); and in a translation unit that
  starts with it, any number of inclusions succeeds, with no redefinition.
\<close>

theorem include_idempotent:
  "include_times (Suc n) t = include_header t
   \<and> (\<exists>t'. include_times (Suc n) empty_tu = Inr t')"
proof -
  have a: "include_times (Suc n) t = include_header t" for t
  proof (cases "include_header t")
    case (Inl e)
    then show ?thesis by simp
  next
    case (Inr t')
    from include_header_defines_guard [OF Inr] obtain b
      where "map_of (tu_macros t') ''MQL5_MOCK_H'' = Some b" ..
    with Inr show ?thesis
      by (simp add: include_times_guarded)
  qed
  from a [of empty_tu] include_header_empty
  have "\<exists>t'. include_times (Suc n) empty_tu = Inr t'"
    by simp
  with a show ?thesis by blast
qed

end
